theory Spec2Isabelle
  imports Main "HOL-Library.Sublist"
begin

section \<open>Tree nodes and path-expression predicates\<close>

text \<open>
  A \<open>TreeNode\<close> carries \<open>$name\<close>, \<open>$value\<close>, \<open>$offset\<close> and \<open>$children\<close>.
  The offset is a position in the owning file, hence a natural number.
\<close>

datatype TreeNode =
  TreeNode (node_name: string) (node_value: string) (node_offset: nat)
           (node_children: "TreeNode list")

text \<open>
  The result of running an expression engine: either a failure (\<open>Inl\<close>) or the
  list of matched nodes (\<open>Inr\<close>). The engine and the path expressions live in
  modules outside these sources, so both stay parameters: \<open>'p\<close> is the type of
  path expressions, \<open>'e\<close> the type of failures.
\<close>

type_synonym 'e ExecutionResult = "'e + TreeNode list"

type_synonym ('p, 'e) ExpressionEngine = "TreeNode \<Rightarrow> 'p \<Rightarrow> 'e ExecutionResult"

text \<open>
  Modelled from the spec: \<open>isSuccessResult\<close> is imported from the
  path-expression module, which is not among the sources. The spec describes
  the result of a query as "matching nodes or a typed failure" and the test as
  "a success (not a failure)".
\<close>

definition isSuccessResult :: "'e ExecutionResult \<Rightarrow> bool" where
  "isSuccessResult r = (case r of Inl _ \<Rightarrow> False | Inr _ \<Rightarrow> True)"

text \<open>
  \<open>ValuePredicate.evaluate\<close>: \<open>nodeToTest.$value === this.$value\<close>.
  The first argument is the predicate's own \<open>$value\<close> field.
\<close>

definition ValuePredicate_evaluate :: "string \<Rightarrow> TreeNode \<Rightarrow> TreeNode list \<Rightarrow> bool" where
  "ValuePredicate_evaluate this_value nodeToTest returnedNodes =
     (node_value nodeToTest = this_value)"

text \<open>
  \<open>NestedPathExpressionPredicate.evaluate\<close>:
  \<open>const r = ee(nodeToTest, this.pathExpression); return isSuccessResult(r) && r.length > 0\<close>.
  The length is read only when the result is a success (\<open>&&\<close> short-circuits).
\<close>

definition NestedPathExpressionPredicate_evaluate ::
  "'p \<Rightarrow> TreeNode \<Rightarrow> TreeNode list \<Rightarrow> ('p, 'e) ExpressionEngine \<Rightarrow> bool" where
  "NestedPathExpressionPredicate_evaluate pathExpression nodeToTest returnedNodes ee =
     (let r = ee nodeToTest pathExpression
      in isSuccessResult r \<and> (case r of Inr ns \<Rightarrow> 0 < length ns | Inl _ \<Rightarrow> False))"


section \<open>The string operations of the host language used by the flush\<close>

text \<open>
  A string is the list of its code units. \<open>s.substr(start)\<close> and
  \<open>s.substr(start, length)\<close> for non-negative integers:
\<close>

definition substr_from :: "string \<Rightarrow> nat \<Rightarrow> string" where
  "substr_from s start = drop start s"

definition substr :: "string \<Rightarrow> nat \<Rightarrow> nat \<Rightarrow> string" where
  "substr s start len = take len (drop start s)"

text \<open>
  The position of the first occurrence of \<open>searchString\<close> in \<open>s\<close>, if any. The
  empty string occurs at position 0 of every string.
\<close>

fun indexOf :: "string \<Rightarrow> string \<Rightarrow> nat option" where
  "indexOf searchString [] = (if searchString = [] then Some 0 else None)"
| "indexOf searchString (c # s) =
     (if prefix searchString (c # s) then Some 0
      else map_option Suc (indexOf searchString s))"

text \<open>
  \<open>GetSubstitution\<close> for a string pattern (no capture groups): in the replacement
  text \<open>$$\<close> stands for a dollar sign, \<open>$&\<close> for the matched text, \<open>$`\<close> for the
  text preceding the match and \<open>$'\<close> for the text following it. A dollar sign followed by
  anything else (a digit included, since there are no captures) stands for itself.
\<close>

fun getSubstitution :: "string \<Rightarrow> string \<Rightarrow> string \<Rightarrow> string \<Rightarrow> string" where
  "getSubstitution matched preceding following [] = []"
| "getSubstitution matched preceding following [c] = [c]"
| "getSubstitution matched preceding following (c # d # rest) =
     (if c = CHR ''$'' then
        (if d = CHR ''$'' then CHR ''$'' # getSubstitution matched preceding following rest
         else if d = CHR ''&'' then matched @ getSubstitution matched preceding following rest
         else if d = CHR 0x60 then preceding @ getSubstitution matched preceding following rest
         else if d = CHR 0x27 then following @ getSubstitution matched preceding following rest
         else c # getSubstitution matched preceding following (d # rest))
      else c # getSubstitution matched preceding following (d # rest))"

text \<open>
  \<open>s.replace(searchValue, replaceValue)\<close> with two strings: only the first
  occurrence is replaced, and the replacement text goes through
  \<open>GetSubstitution\<close>. Without an occurrence the string is returned as it is.
\<close>

definition replace :: "string \<Rightarrow> string \<Rightarrow> string \<Rightarrow> string" where
  "replace s searchValue replaceValue =
     (case indexOf searchValue s of
        None \<Rightarrow> s
      | Some pos \<Rightarrow>
          (let preceding = take pos s;
               following = drop (pos + length searchValue) s
           in preceding @ getSubstitution searchValue preceding following replaceValue @ following))"


section \<open>Sorting the pending updates\<close>

text \<open>
  \<open>Array.prototype.sort(comparefn)\<close>. The language leaves the order open when
  \<open>comparefn\<close> is not a consistent comparison, so the model follows the engine
  the code was written for (V8 as in Node.js up to version 10). For arrays of
  up to 10 elements that is an insertion sort: each element is moved down past
  every earlier element \<open>tmp\<close> for which \<open>comparefn(tmp, element) > 0\<close>, and
  stops at the first one for which it is not. \<open>insert_element\<close> works on the
  already sorted part in reverse (nearest element first). Longer arrays, which
  that engine sorts by quicksort, are outside this model.
\<close>

fun insert_element :: "('a \<Rightarrow> 'a \<Rightarrow> int) \<Rightarrow> 'a \<Rightarrow> 'a list \<Rightarrow> 'a list" where
  "insert_element comparefn element [] = [element]"
| "insert_element comparefn element (tmp # below) =
     (if comparefn tmp element > 0 then tmp # insert_element comparefn element below
      else element # tmp # below)"

definition array_sort :: "('a \<Rightarrow> 'a \<Rightarrow> int) \<Rightarrow> 'a list \<Rightarrow> 'a list" where
  "array_sort comparefn a =
     rev (foldl (\<lambda>below element. insert_element comparefn element below) [] a)"


section \<open>FileHit: deferred updates and the flush\<close>

text \<open>The \<open>Update\<close> interface of the \<open>FileHit\<close> constructor.\<close>

record Update =
  initialValue :: string
  currentValue :: string
  offset :: nat

text \<open>
  A match once the constructor has instrumented it: the node, and the two
  closure variables \<open>initialValue\<close> (constant) and \<open>currentValue\<close> (assigned by the
  setter of \<open>$value\<close>, returned by its getter).
\<close>

record MatchResult =
  node :: TreeNode
  initial :: string
  current :: string

text \<open>
  The state that the constructor's closures share: the content of the file
  (read by \<open>file.getContent()\<close>, written by \<open>file.setContent\<close>), the matches and
  the array \<open>updates\<close>.
\<close>

record FileHit =
  file_content :: string
  matches :: "MatchResult list"
  updates :: "Update list"

definition new_FileHit :: "string \<Rightarrow> TreeNode list \<Rightarrow> FileHit" where
  "new_FileHit content nodes =
     \<lparr> file_content = content,
       matches = map (\<lambda>m. \<lparr> node = m, initial = node_value m, current = node_value m \<rparr>) nodes,
       updates = [] \<rparr>"

text \<open>
  The accessors of the \<open>i\<close>-th match. Reaching for a match that does not exist
  raises a \<open>TypeError\<close> in the source; here it is \<open>None\<close>.
\<close>

definition get_value :: "FileHit \<Rightarrow> nat \<Rightarrow> string option" where
  "get_value h i =
     (if i < length (matches h) then Some (current (matches h ! i)) else None)"

definition set_value :: "nat \<Rightarrow> string \<Rightarrow> FileHit \<Rightarrow> FileHit option" where
  "set_value i v2 h =
     (if i < length (matches h) then
        (let m = matches h ! i
         in Some (h\<lparr> matches := (matches h)[i := m\<lparr> current := v2 \<rparr>],
                     updates := updates h @
                       [\<lparr> initialValue = initial m, currentValue = v2,
                          offset = node_offset (node m) \<rparr>] \<rparr>))
      else None)"

definition append :: "nat \<Rightarrow> string \<Rightarrow> FileHit \<Rightarrow> FileHit option" where
  "append i content h =
     (if i < length (matches h) then
        (let m = matches h ! i
         in Some (h\<lparr> updates := updates h @
                       [\<lparr> initialValue = [], currentValue = content,
                          offset = node_offset (node m) + length (current m) \<rparr>] \<rparr>))
      else None)"

definition prepend :: "nat \<Rightarrow> string \<Rightarrow> FileHit \<Rightarrow> FileHit option" where
  "prepend i content h =
     (if i < length (matches h) then
        (let m = matches h ! i
         in Some (h\<lparr> updates := updates h @
                       [\<lparr> initialValue = [], currentValue = content,
                          offset = node_offset (node m) \<rparr>] \<rparr>))
      else None)"

text \<open>A caller's write to a match, and a sequence of such writes.\<close>

datatype Call = SetValue nat string | Append nat string | Prepend nat string

fun perform :: "Call \<Rightarrow> FileHit \<Rightarrow> FileHit option" where
  "perform (SetValue i v) h = set_value i v h"
| "perform (Append i s) h = append i s h"
| "perform (Prepend i s) h = prepend i s h"

fun perform_all :: "Call list \<Rightarrow> FileHit \<Rightarrow> FileHit option" where
  "perform_all [] h = Some h"
| "perform_all (c # cs) h =
     (case perform c h of None \<Rightarrow> None | Some h' \<Rightarrow> perform_all cs h')"

text \<open>
  The comparison function given to \<open>updates.sort\<close> is \<open>u => -u.offset\<close>: it reads
  its first argument only.
\<close>

definition compare_fn :: "Update \<Rightarrow> Update \<Rightarrow> int" where
  "compare_fn u v = - int (offset u)"

text \<open>
  The body of the loop of \<open>doReplace\<close>:
  \<open>newContent.substr(0, u.offset) + newContent.substr(u.offset).replace(u.initialValue, u.currentValue)\<close>.
\<close>

definition applyUpdate :: "string \<Rightarrow> Update \<Rightarrow> string" where
  "applyUpdate newContent u =
     substr newContent 0 (offset u) @
     replace (substr_from newContent (offset u)) (initialValue u) (currentValue u)"

text \<open>
  \<open>doReplace\<close>, the action recorded with the project and run at flush time:
  read the content, sort \<open>updates\<close> in place, apply them one by one,
  write the result back.
\<close>

definition doReplace :: "FileHit \<Rightarrow> FileHit" where
  "doReplace h =
     (let content = file_content h;
          sortedUpdates = array_sort compare_fn (updates h);
          newContent = foldl applyUpdate content sortedUpdates
      in h\<lparr> file_content := newContent, updates := sortedUpdates \<rparr>)"


section \<open>Addressed matches and the concrete files of the examples\<close>

text \<open>The index of the match a call addresses.\<close>

fun call_index :: "Call \<Rightarrow> nat" where
  "call_index (SetValue i v) = i"
| "call_index (Append i s) = i"
| "call_index (Prepend i s) = i"

text \<open>A Java file with its package name matched, after the repository's test of updating a match.\<close>

definition java_file :: string where
  "java_file = ''package com.foo.bar;''"

definition java_nodes :: "TreeNode list" where
  "java_nodes = [TreeNode ''packageName'' ''com.foo.bar'' 8 []]"

text \<open>A file with three matched values, at offsets 2, 9 and 14.\<close>

definition three_file :: string where
  "three_file = ''a=xxxx;b=yy;c=zz''"

definition three_nodes :: "TreeNode list" where
  "three_nodes = [TreeNode ''first'' ''xxxx'' 2 [], TreeNode ''second'' ''yy'' 9 [],
                  TreeNode ''third'' ''zz'' 14 []]"

text \<open>A file in which the matched variable name occurs a second time.\<close>

definition assign_file :: string where
  "assign_file = ''a = a + 1''"

definition assign_nodes :: "TreeNode list" where
  "assign_nodes = [TreeNode ''variable'' ''a'' 0 []]"

text \<open>
  A file of 40 characters with two matched values of 5 characters each, at
  offsets 10 and 30, and a new value of 20 characters that holds \<open>$$\<close>.
\<close>

definition two_file :: string where
  "two_file = ''0123456789AAAAA567890123456789BBBBB56789''"

definition two_nodes :: "TreeNode list" where
  "two_nodes = [TreeNode ''left'' ''AAAAA'' 10 [], TreeNode ''right'' ''BBBBB'' 30 []]"

definition pid_command :: string where
  "pid_command = ''echo $$ > /tmp/pid.x''"

text \<open>The state of the Java file's matches once the package name has been set.\<close>

definition java_after_set :: FileHit where
  "java_after_set =
     \<lparr> file_content = ''package com.foo.bar;'',
       matches = [\<lparr> node = TreeNode ''packageName'' ''com.foo.bar'' 8 [],
                    initial = ''com.foo.bar'', current = ''com.foo.barx'' \<rparr>],
       updates = [\<lparr> initialValue = ''com.foo.bar'', currentValue = ''com.foo.barx'',
                    offset = 8 \<rparr>] \<rparr>"


section \<open>Facts about the string operations\<close>

lemma getSubstitution_literal:
  "CHR ''$'' \<notin> set replaceValue \<Longrightarrow>
   getSubstitution matched preceding following replaceValue = replaceValue"
  by (induction matched preceding following replaceValue rule: getSubstitution.induct) auto

lemma indexOf_Nil: "indexOf [] s = Some 0"
  by (cases s) simp_all

lemma indexOf_prefix: "prefix pat s \<Longrightarrow> indexOf pat s = Some 0"
  by (cases s) simp_all

text \<open>\<open>indexOf\<close> returns an occurrence, and the first one.\<close>

lemma indexOf_occurs:
  "indexOf pat s = Some p \<Longrightarrow> prefix pat (drop p s) \<and> p \<le> length s"
proof (induction s arbitrary: p)
  case Nil
  then show ?case by (simp split: if_splits)
next
  case (Cons c s)
  show ?case
  proof (cases "prefix pat (c # s)")
    case True
    with Cons.prems show ?thesis by simp
  next
    case False
    with Cons.prems obtain q where q: "indexOf pat s = Some q" "p = Suc q"
      by auto
    from Cons.IH [OF q(1)] q(2) show ?thesis by simp
  qed
qed

lemma indexOf_first:
  "indexOf pat s = Some p \<Longrightarrow> q < p \<Longrightarrow> \<not> prefix pat (drop q s)"
proof (induction s arbitrary: p q)
  case Nil
  then show ?case by (simp split: if_splits)
next
  case (Cons c s)
  show ?case
  proof (cases "prefix pat (c # s)")
    case True
    with Cons.prems show ?thesis by simp
  next
    case False
    with Cons.prems obtain p' where p': "indexOf pat s = Some p'" "p = Suc p'"
      by auto
    show ?thesis
    proof (cases q)
      case 0
      with False show ?thesis by simp
    next
      case (Suc q')
      with Cons.prems(2) p'(2) have "q' < p'" by simp
      from Cons.IH [OF p'(1) this] Suc show ?thesis by simp
    qed
  qed
qed

lemma indexOf_None:
  "indexOf pat s = None \<Longrightarrow> q \<le> length s \<Longrightarrow> \<not> prefix pat (drop q s)"
proof (induction s arbitrary: q)
  case Nil
  then show ?case by (simp split: if_splits)
next
  case (Cons c s)
  from Cons.prems(1) have np: "\<not> prefix pat (c # s)" and n: "indexOf pat s = None"
    by (auto split: if_splits)
  show ?case
  proof (cases q)
    case 0
    with np show ?thesis by simp
  next
    case (Suc q')
    with Cons.prems(2) have "q' \<le> length s" by simp
    from Cons.IH [OF n this] Suc show ?thesis by simp
  qed
qed

lemma replace_literal:
  "CHR ''$'' \<notin> set r \<Longrightarrow> indexOf pat s = Some p \<Longrightarrow>
   replace s pat r = take p s @ r @ drop (p + length pat) s"
  by (simp add: replace_def getSubstitution_literal)

lemma replace_absent: "indexOf pat s = None \<Longrightarrow> replace s pat r = s"
  by (simp add: replace_def)


section \<open>Facts about one step of the flush\<close>

lemma applyUpdate_unfold:
  "applyUpdate c u =
     take (offset u) c @ replace (drop (offset u) c) (initialValue u) (currentValue u)"
  by (simp add: applyUpdate_def substr_def substr_from_def)

text \<open>The text in front of the offset is never touched.\<close>

lemma applyUpdate_keeps_prefix: "prefix (take (offset u) c) (applyUpdate c u)"
  by (simp add: applyUpdate_unfold)

text \<open>
  A new value without a dollar sign replaces the first occurrence of the
  initial value at or after the offset, and nothing else changes.
\<close>

lemma applyUpdate_literal:
  assumes "CHR ''$'' \<notin> set (currentValue u)"
    and "indexOf (initialValue u) (drop (offset u) c) = Some p"
  shows "applyUpdate c u =
           take (offset u + p) c @ currentValue u @
           drop (offset u + p + length (initialValue u)) c"
proof -
  have "take (offset u) c @ take p (drop (offset u) c) = take (offset u + p) c"
    by (simp add: take_add)
  then show ?thesis
    using assms by (simp add: applyUpdate_unfold replace_literal add.commute add.left_commute)
qed

text \<open>Without an occurrence at or after the offset the content stays as it is.\<close>

lemma applyUpdate_absent:
  "indexOf (initialValue u) (drop (offset u) c) = None \<Longrightarrow> applyUpdate c u = c"
  by (simp add: applyUpdate_unfold replace_absent)

text \<open>
  An update with an empty initial value and a new value without a dollar sign
  inserts the new value at the offset.
\<close>

lemma applyUpdate_insert_literal:
  "initialValue u = [] \<Longrightarrow> CHR ''$'' \<notin> set (currentValue u) \<Longrightarrow>
   applyUpdate c u = take (offset u) c @ currentValue u @ drop (offset u) c"
  by (simp add: applyUpdate_unfold replace_literal indexOf_Nil)

text \<open>
  Applying an update a second time changes nothing when the initial value no
  longer occurs at or after the offset.
\<close>

lemma applyUpdate_twice_absent:
  "indexOf (initialValue u) (drop (offset u) (applyUpdate c u)) = None \<Longrightarrow>
   applyUpdate (applyUpdate c u) u = applyUpdate c u"
  by (rule applyUpdate_absent)


section \<open>Facts about the sort and the flush\<close>

text \<open>
  \<open>compare_fn\<close> is never positive, so the insertion sort moves nothing: the
  updates are applied in the order of the calls that recorded them.
\<close>

lemma insert_element_compare_fn: "insert_element compare_fn element below = element # below"
  by (cases below) (simp_all add: compare_fn_def)

lemma foldl_insert_compare_fn:
  "foldl (\<lambda>below element. insert_element compare_fn element below) acc us = rev us @ acc"
  by (induction us arbitrary: acc) (simp_all add: insert_element_compare_fn)

lemma array_sort_compare_fn: "array_sort compare_fn us = us"
  by (simp add: array_sort_def foldl_insert_compare_fn)

lemma doReplace_file_content:
  "file_content (doReplace h) = foldl applyUpdate (file_content h) (updates h)"
  by (simp add: doReplace_def array_sort_compare_fn Let_def)

lemma doReplace_updates: "updates (doReplace h) = updates h"
  by (simp add: doReplace_def array_sort_compare_fn Let_def)


section \<open>Facts about the deferred writes\<close>

lemma perform_matches_length:
  "perform c h = Some h' \<Longrightarrow> length (matches h') = length (matches h)"
  by (cases c) (auto simp: set_value_def append_def prepend_def Let_def split: if_splits)

lemma perform_file_content:
  "perform c h = Some h' \<Longrightarrow> file_content h' = file_content h"
  by (cases c) (auto simp: set_value_def append_def prepend_def Let_def split: if_splits)

lemma perform_defined:
  "call_index c < length (matches h) \<Longrightarrow> \<exists>h'. perform c h = Some h'"
  by (cases c) (auto simp: set_value_def append_def prepend_def Let_def)

text \<open>Calls that address existing matches never fail.\<close>

lemma perform_all_defined:
  "\<forall>c \<in> set calls. call_index c < length (matches h) \<Longrightarrow>
   \<exists>h'. perform_all calls h = Some h'"
proof (induction calls arbitrary: h)
  case Nil
  then show ?case by simp
next
  case (Cons c cs)
  then obtain h1 where h1: "perform c h = Some h1"
    using perform_defined [of c h] by auto
  with Cons.prems have "\<forall>c \<in> set cs. call_index c < length (matches h1)"
    by (simp add: perform_matches_length)
  from Cons.IH [OF this] h1 show ?case by simp
qed

lemma perform_all_file_content:
  "perform_all calls h = Some h' \<Longrightarrow> file_content h' = file_content h"
proof (induction calls arbitrary: h)
  case Nil
  then show ?case by simp
next
  case (Cons c cs)
  then show ?case
    by (auto split: option.splits dest: perform_file_content)
qed

lemma perform_all_snoc:
  "perform_all (cs @ [c]) h =
     (case perform_all cs h of None \<Rightarrow> None | Some h1 \<Rightarrow> perform c h1)"
  by (induction cs arbitrary: h) (auto split: option.splits)

lemma get_after_set: "set_value i v h = Some h' \<Longrightarrow> get_value h' i = Some v"
  by (auto simp: set_value_def get_value_def Let_def split: if_splits)

text \<open>
  One write of a value without a dollar sign to a match whose value stands at
  its offset, then the flush: the value is replaced in place.
\<close>

lemma set_value_flush_literal:
  assumes i: "i < length nodes"
    and at: "prefix (node_value (nodes ! i)) (drop (node_offset (nodes ! i)) content)"
    and v: "CHR ''$'' \<notin> set v"
  shows "map_option (\<lambda>h. file_content (doReplace h)) (set_value i v (new_FileHit content nodes)) =
           Some (take (node_offset (nodes ! i)) content @ v @
                 drop (node_offset (nodes ! i) + length (node_value (nodes ! i))) content)"
proof -
  let ?u = "\<lparr> initialValue = node_value (nodes ! i), currentValue = v,
              offset = node_offset (nodes ! i) \<rparr>"
  have "indexOf (initialValue ?u) (drop (offset ?u) content) = Some 0"
    using at by (simp add: indexOf_prefix)
  from applyUpdate_literal [OF _ this] v
  have "applyUpdate content ?u =
          take (node_offset (nodes ! i)) content @ v @
          drop (node_offset (nodes ! i) + length (node_value (nodes ! i))) content"
    by simp
  then show ?thesis
    using i by (simp add: set_value_def new_FileHit_def doReplace_file_content)
qed

text \<open>
  Offset safety for values without a dollar sign: with values of 5 characters
  at offsets 10 and 30, writing 20 such characters to the first leaves the
  second value in the content, 15 places further on.
\<close>

lemma offset_safety_literal:
  assumes nodes: "nodes = [TreeNode n1 v1 10 k1, TreeNode n2 v2 30 k2]"
    and len: "length v1 = 5" "length v2 = 5"
    and at1: "take 5 (drop 10 content) = v1"
    and at2: "take 5 (drop 30 content) = v2"
    and v: "length v = 20" "CHR ''$'' \<notin> set v"
  shows "\<exists>c'. map_option (\<lambda>h. file_content (doReplace h))
                 (set_value 0 v (new_FileHit content nodes)) = Some c' \<and>
              take 5 (drop 45 c') = v2 \<and> take 10 c' = take 10 content"
proof -
  from at2 len(2) have long: "35 \<le> length content"
    by (cases "35 \<le> length content") auto
  have "prefix v1 (drop 10 content)"
    using at1 [symmetric] by (simp add: take_is_prefix)
  with set_value_flush_literal [of 0 nodes content v] v(2) nodes len(1)
  have "map_option (\<lambda>h. file_content (doReplace h))
          (set_value 0 v (new_FileHit content nodes)) =
        Some (take 10 content @ v @ drop 15 content)"
    by simp
  moreover have "take 5 (drop 45 (take 10 content @ v @ drop 15 content)) = v2"
    using long v(1) at2 by simp
  moreover have "take 10 (take 10 content @ v @ drop 15 content) = take 10 content"
    using long by simp
  ultimately show ?thesis by blast
qed

text \<open>As in the repository's test: the package name gets an \<open>x\<close> at its end.\<close>

lemma java_package_example:
  "map_option (\<lambda>h. file_content (doReplace h))
     (set_value 0 ''com.foo.barx'' (new_FileHit java_file java_nodes)) =
   Some ''package com.foo.barx;''"
  by code_simp


lemma java_set_reaches:
  "set_value 0 ''com.foo.barx'' (new_FileHit java_file java_nodes) = Some java_after_set"
  by (simp add: set_value_def new_FileHit_def java_file_def java_nodes_def java_after_set_def)


section \<open>The claims\<close>

text \<open>
  C1. At flush time the pending updates are to be applied in descending order
  of their offset. The comparison function handed to the sort reads one
  argument and returns its negated offset, which is never positive, so the sort
  leaves the updates in the order of the calls. With the three values of
  \<open>three_file\<close> set in the order first, third, second, the flush applies the
  updates at offsets 2, 14, 9: the one at 2 before the one at 14, and the order
  is not descending.
\<close>

theorem doReplace_order_not_descending:
  "map_option (\<lambda>h. map offset (updates (doReplace h)))
     (perform_all [SetValue 0 ''x'', SetValue 2 ''c'', SetValue 1 ''b'']
        (new_FileHit three_file three_nodes)) = Some [2, 14, 9]
   \<and> \<not> sorted_wrt (\<ge>) [2, 14, 9 :: nat]"
  by (simp add: new_FileHit_def three_nodes_def three_file_def set_value_def
      doReplace_updates)

text \<open>
  What that order does to the file: the first update shortens the content, the
  other two then look for their text behind it, find nothing and are lost. In
  descending order the result would have been \<open>a=x;b=b;c=c\<close>.
\<close>

lemma doReplace_loses_updates:
  "map_option (\<lambda>h. file_content (doReplace h))
     (perform_all [SetValue 0 ''x'', SetValue 2 ''c'', SetValue 1 ''b'']
        (new_FileHit three_file three_nodes)) = Some ''a=x;b=yy;c=zz''"
  by code_simp

lemma descending_order_keeps_updates:
  "foldl applyUpdate three_file
     [\<lparr> initialValue = ''zz'', currentValue = ''c'', offset = 14 \<rparr>,
      \<lparr> initialValue = ''yy'', currentValue = ''b'', offset = 9 \<rparr>,
      \<lparr> initialValue = ''xxxx'', currentValue = ''x'', offset = 2 \<rparr>] = ''a=x;b=b;c=c''"
  by code_simp

text \<open>
  C2. One step of the flush is to replace the first occurrence of the initial
  value at or after the offset with the new value, as it stands. The step hands
  the new value to \<open>replace\<close> as a replacement pattern, in which \<open>$$\<close> stands for
  one dollar sign: the update of \<open>5\<close> to \<open>$$5\<close> at offset 5 of \<open>cost=5\<close> writes
  \<open>cost=$5\<close>, not \<open>cost=$$5\<close>. (For new values without a dollar sign the step
  does what the claim says: \<open>applyUpdate_keeps_prefix\<close>, \<open>applyUpdate_literal\<close>,
  \<open>applyUpdate_absent\<close>.)
\<close>

theorem applyUpdate_expands_dollar:
  "applyUpdate ''cost=5'' \<lparr> initialValue = ''5'', currentValue = ''$$5'', offset = 5 \<rparr>
     = ''cost=$5''
   \<and> applyUpdate ''cost=5'' \<lparr> initialValue = ''5'', currentValue = ''$$5'', offset = 5 \<rparr>
     \<noteq> take 5 ''cost=5'' @ ''$$5'' @ drop 6 ''cost=5''"
  by code_simp

text \<open>
  C3. Round trip: making the matches of a file updatable and flushing at once,
  with no write in between, leaves the content of the file as it was.
\<close>

theorem flush_without_writes_roundtrip:
  "file_content (doReplace (new_FileHit content nodes)) = content"
  by (simp add: doReplace_def new_FileHit_def array_sort_def)

text \<open>
  C4. Setting a value twice to the same new value is to give the same file as
  setting it once. Every call of the setter records one more update with the
  value the node had at first; at the flush the second update looks for that
  text again and replaces its next occurrence. In \<open>a = a + 1\<close> with the first
  \<open>a\<close> matched, setting it to \<open>b\<close> twice gives \<open>b = b + 1\<close>, setting it once
  gives \<open>b = a + 1\<close>.
\<close>

theorem set_value_twice_differs:
  "map_option (\<lambda>h. file_content (doReplace h))
     (perform_all [SetValue 0 ''b'', SetValue 0 ''b''] (new_FileHit assign_file assign_nodes))
     = Some ''b = b + 1''
   \<and> map_option (\<lambda>h. file_content (doReplace h))
     (perform_all [SetValue 0 ''b''] (new_FileHit assign_file assign_nodes))
     = Some ''b = a + 1''"
  by code_simp

text \<open>
  C5. Offset safety: with values of 5 characters at offsets 10 and 30, setting
  the first to a value of 20 characters is to leave the second value intact, 15
  places further on, at 45. The value \<open>echo $$ > /tmp/pid.x\<close> has 20 characters,
  but the flush writes 19 of them (\<open>$$\<close> becomes \<open>$\<close>), so the second value
  starts at 44 and the 5 characters at 45 are \<open>BBBB5\<close>. (For values without a
  dollar sign the claim holds: \<open>offset_safety_literal\<close>.)
\<close>

theorem offset_safety_dollar_value:
  "length pid_command = 20
   \<and> map_option (\<lambda>h. file_content (doReplace h))
       (set_value 0 pid_command (new_FileHit two_file two_nodes))
     = Some ''0123456789echo $ > /tmp/pid.x567890123456789BBBBB56789''
   \<and> take 5 (drop 45 ''0123456789echo $ > /tmp/pid.x567890123456789BBBBB56789'') = ''BBBB5''
   \<and> take 5 (drop 44 ''0123456789echo $ > /tmp/pid.x567890123456789BBBBB56789'') = ''BBBBB''"
  by code_simp

text \<open>
  C6. No write reaches the file before the flush: after any sequence of
  set-value, append and prepend calls the content of the file is what it was,
  and when the last call set a value, the getter returns that value.
\<close>

theorem writes_deferred_until_flush:
  "perform_all calls h = Some h' \<Longrightarrow>
     file_content h' = file_content h \<and>
     (\<forall>cs i v. calls = cs @ [SetValue i v] \<longrightarrow> get_value h' i = Some v)"
  by (auto simp: perform_all_file_content perform_all_snoc get_after_set split: option.splits)

theorem writes_deferred_until_flush_witness:
  "perform_all [SetValue 0 ''com.foo.barx''] (new_FileHit java_file java_nodes)
     = Some java_after_set
   \<and> file_content java_after_set = java_file
   \<and> get_value java_after_set 0 = Some ''com.foo.barx''"
proof -
  have run: "perform_all [SetValue 0 ''com.foo.barx''] (new_FileHit java_file java_nodes)
               = Some java_after_set"
    by (simp add: java_set_reaches)
  from writes_deferred_until_flush [OF run]
  have "file_content java_after_set = file_content (new_FileHit java_file java_nodes)"
    and "get_value java_after_set 0 = Some ''com.foo.barx''"
    by simp_all
  with run show ?thesis by (simp add: new_FileHit_def)
qed

text \<open>
  C7. \<open>ValuePredicate.evaluate\<close> is true exactly when the value of the node
  under test equals the string the predicate holds, whatever nodes have been
  returned so far.
\<close>

theorem ValuePredicate_evaluate_iff:
  "ValuePredicate_evaluate this_value nodeToTest returnedNodes
     \<longleftrightarrow> node_value nodeToTest = this_value"
  by (simp add: ValuePredicate_evaluate_def)

text \<open>
  C8. \<open>NestedPathExpressionPredicate.evaluate\<close> is true exactly when the engine,
  run on the node under test with the predicate's path expression, returns a
  success with at least one node; a failure and an empty success give false.
\<close>

theorem NestedPathExpressionPredicate_evaluate_iff:
  "NestedPathExpressionPredicate_evaluate pathExpression nodeToTest returnedNodes ee
     \<longleftrightarrow> (\<exists>ns. ee nodeToTest pathExpression = Inr ns \<and> ns \<noteq> [])"
  by (auto simp: NestedPathExpressionPredicate_evaluate_def isSuccessResult_def Let_def
      split: sum.splits)

text \<open>
  C9. For a match whose current value is \<open>cur\<close>, \<open>append\<close> records an update with
  an empty initial value at the node's offset plus the length of \<open>cur\<close>, and
  \<open>prepend\<close> records one with an empty initial value at the node's offset.
\<close>

theorem append_prepend_record_update:
  "get_value h i = Some cur \<Longrightarrow>
     map_option updates (append i s h) =
       Some (updates h @ [\<lparr> initialValue = [], currentValue = s,
                             offset = node_offset (node (matches h ! i)) + length cur \<rparr>]) \<and>
     map_option updates (prepend i s h) =
       Some (updates h @ [\<lparr> initialValue = [], currentValue = s,
                             offset = node_offset (node (matches h ! i)) \<rparr>])"
  by (auto simp: get_value_def append_def prepend_def Let_def split: if_splits)

theorem append_prepend_record_update_witness:
  "get_value java_after_set 0 = Some ''com.foo.barx''
   \<and> map_option updates (append 0 ''.y'' java_after_set) =
       Some (updates java_after_set @
             [\<lparr> initialValue = [], currentValue = ''.y'', offset = 20 \<rparr>])
   \<and> map_option updates (prepend 0 ''z.'' java_after_set) =
       Some (updates java_after_set @
             [\<lparr> initialValue = [], currentValue = ''z.'', offset = 8 \<rparr>])"
proof -
  have cur: "get_value java_after_set 0 = Some ''com.foo.barx''"
    by (simp add: get_value_def java_after_set_def)
  have at: "node_offset (node (matches java_after_set ! 0)) = 8"
    by (simp add: java_after_set_def)
  from append_prepend_record_update [OF cur, of "''.y''"]
    append_prepend_record_update [OF cur, of "''z.''"] cur at
  show ?thesis by simp
qed

text \<open>
  C10. A step of the flush with an empty initial value is to insert the new
  value at the offset, as it stands, with nothing of the content lost or
  repeated. The new value is again read as a replacement pattern: appending
  \<open>$$\<close> at offset 1 of \<open>ab\<close> inserts one dollar sign, and prepending \<open>$'\<close> (the
  text after the match) at offset 0 of \<open>ab\<close> repeats the content. (For new
  values without a dollar sign the claim holds: \<open>applyUpdate_insert_literal\<close>.)
\<close>

theorem applyUpdate_insert_expands_dollar:
  "applyUpdate ''ab'' \<lparr> initialValue = [], currentValue = ''$$'', offset = 1 \<rparr> = ''a$b''
   \<and> applyUpdate ''ab'' \<lparr> initialValue = [], currentValue = [CHR ''$'', CHR 0x27], offset = 0 \<rparr>
     = ''abab''"
  by code_simp


end
